theory Spec2Isabelle
  imports Complex_Main "HOL-Library.Word" "HOL-Library.AList"
begin

section \<open>The message board canister (src/index.ts)\<close>

text \<open>
  The program is an Express application running in a canister: a \<open>Message\<close> class with
  \<open>create\<close> and \<open>update\<close>, a key-value store \<open>messagesStorage\<close>, six routes and the clock
  helper \<open>getCurrentDate\<close>. Each source function is a HOL function of the same name. What
  a function reads from its environment (the canister clock \<open>ic.time()\<close>, the identifier
  drawn by \<open>uuidv4()\<close>) is passed to it as an argument.
\<close>

subsection \<open>Message and Partial<Message>\<close>

text \<open>
  A JavaScript \<open>Date\<close> is its time value, the number of milliseconds since the epoch.
  A field of type \<open>T | null\<close> is a \<open>T option\<close>, \<open>None\<close> being \<open>null\<close>.
\<close>

type_synonym date = int

record message =
  id_msg :: string
  title :: string
  body :: string
  attachmentURL :: "string option"
  createdAt :: date
  updatedAt :: "date option"

text \<open>
  \<open>Partial<Message>\<close> makes every field optional: a field is \<open>undefined\<close> (\<open>Absent\<close>) or
  holds a value of the field's type (\<open>Present\<close>), which for \<open>attachmentURL\<close> and
  \<open>updatedAt\<close> may itself be \<open>null\<close>.
\<close>

datatype 'a field = Absent | Present 'a

record partial_message =
  p_id :: "string field"
  p_title :: "string field"
  p_body :: "string field"
  p_attachmentURL :: "string option field"
  p_createdAt :: "date field"
  p_updatedAt :: "date option field"

datatype error = Error string

subsection \<open>The clock: getCurrentDate\<close>

text \<open>
  \<^verbatim>\<open>const timestamp = Number(ic.time());
  return new Date(Math.floor(timestamp / 1_000_000));\<close>

  \<open>ic.time()\<close> is an unsigned 64-bit count of nanoseconds, handed over as a bigint.
  \<open>Number\<close> converts the bigint to a double, the division is the division of doubles, and
  \<open>Math.floor\<close> takes the integral part. A double has a significand of 53 bits and every
  operation rounds its exact result to the nearest double, a tie going to the even
  significand. All values here are non-negative and far from the overflow and the
  subnormal range, so a double is represented by the rational number it denotes.
\<close>

text \<open>The number of binary digits of a natural number.\<close>

fun bitlen :: "nat \<Rightarrow> nat" where
  "bitlen n = (if n = 0 then 0 else Suc (bitlen (n div 2)))"

declare bitlen.simps [simp del]

text \<open>The integer nearest to \<open>a / b\<close>, a tie going to the even one.\<close>

definition round_ties_even :: "nat \<Rightarrow> nat \<Rightarrow> nat" where
  "round_ties_even a b =
     (let q = a div b; r = a mod b
      in if b < 2 * r \<or> (2 * r = b \<and> odd q) then q + 1 else q)"

text \<open>
  \<open>Number(n)\<close> for a non-negative bigint \<open>n\<close>: the double nearest to \<open>n\<close>. With \<open>e\<close> the
  number of digits beyond the 53 that fit, the significand is \<open>n / 2 ^ e\<close> rounded.
  The result is again an integer.
\<close>

definition Number :: "nat \<Rightarrow> nat" where
  "Number n = (let e = bitlen n - 53 in round_ties_even n (2 ^ e) * 2 ^ e)"

text \<open>
  The least \<open>k\<close> with \<open>d \<le> x * 2 ^ k\<close>, for \<open>0 < x\<close>: the number of doublings that
  bring \<open>x\<close> up to \<open>d\<close>.
\<close>

function doublings :: "nat \<Rightarrow> nat \<Rightarrow> nat" where
  "doublings x d = (if x = 0 \<or> d \<le> x then 0 else Suc (doublings (2 * x) d))"
  by pat_completeness auto
termination
  by (relation "measure (\<lambda>(x, d). d - x)") auto

declare doublings.simps [simp del]

text \<open>
  \<open>x / d\<close> on doubles, for integral \<open>x\<close> and \<open>d\<close> with \<open>0 < d\<close>. The binary exponent of the
  exact quotient is \<open>p\<close>, that is \<open>2 ^ p \<le> x / d < 2 ^ (p + 1)\<close>; scaling by \<open>2 ^ (52 - p)\<close>
  brings the quotient into the range of a 53-bit significand, where it is rounded.
\<close>

definition float_divide :: "nat \<Rightarrow> nat \<Rightarrow> rat" where
  "float_divide x d =
     (if x = 0 then 0
      else let p = (if d \<le> x then int (bitlen (x div d)) - 1 else - int (doublings x d))
           in if p \<le> 52
              then let s = nat (52 - p)
                   in of_nat (round_ties_even (x * 2 ^ s) d) / of_nat (2 ^ s)
              else let s = nat (p - 52)
                   in of_nat (round_ties_even x (d * 2 ^ s) * 2 ^ s))"

definition Math_floor :: "rat \<Rightarrow> int" where
  "Math_floor v = \<lfloor>v\<rfloor>"

definition getCurrentDate :: "64 word \<Rightarrow> date" where
  "getCurrentDate ic_time =
     (let timestamp = Number (unat ic_time)
      in Math_floor (float_divide timestamp 1000000))"

subsection \<open>Message.create and Message.update\<close>

text \<open>
  \<open>!data.title\<close> holds for \<open>undefined\<close> and for the empty string, the two falsy values of
  \<open>string | undefined\<close>.
\<close>

definition falsy :: "string field \<Rightarrow> bool" where
  "falsy f = (case f of Absent \<Rightarrow> True | Present v \<Rightarrow> v = [])"

text \<open>\<open>data.attachmentURL || null\<close>: the attachment when it is a non-empty string.\<close>

definition or_null :: "string option field \<Rightarrow> string option" where
  "or_null f = (case f of Present (Some v) \<Rightarrow> (if v = [] then None else Some v) | _ \<Rightarrow> None)"

text \<open>
  \<open>create\<close> takes the identifier that \<open>uuidv4()\<close> returns and the reading of \<open>ic.time()\<close>.
  The \<open>throw\<close> is the result \<open>Inl\<close>. The constructor's default makes \<open>updatedAt\<close> null.
\<close>

definition create :: "string \<Rightarrow> 64 word \<Rightarrow> partial_message \<Rightarrow> error + message" where
  "create uuid ic_time data =
     (if falsy (p_title data) \<or> falsy (p_body data)
      then Inl (Error ''Both 'title' and 'body' are required.'')
      else case (p_title data, p_body data) of
             (Present t, Present b) \<Rightarrow>
               Inr \<lparr>id_msg = uuid, title = t, body = b,
                    attachmentURL = or_null (p_attachmentURL data),
                    createdAt = getCurrentDate ic_time, updatedAt = None\<rparr>
           | _ \<Rightarrow> Inl (Error ''Both 'title' and 'body' are required.''))"

text \<open>\<open>update\<close> mutates \<open>this\<close> and returns it; the model returns the new record.\<close>

definition update :: "64 word \<Rightarrow> message \<Rightarrow> partial_message \<Rightarrow> message" where
  "update ic_time this data =
     (let m1 = (case p_title data of Present v \<Rightarrow> this\<lparr>title := v\<rparr> | Absent \<Rightarrow> this);
          m2 = (case p_body data of Present v \<Rightarrow> m1\<lparr>body := v\<rparr> | Absent \<Rightarrow> m1);
          m3 = (case p_attachmentURL data of Present v \<Rightarrow> m2\<lparr>attachmentURL := v\<rparr> | Absent \<Rightarrow> m2)
      in m3\<lparr>updatedAt := Some (getCurrentDate ic_time)\<rparr>)"

subsection \<open>messagesStorage\<close>

text \<open>
  Modelled from the spec: the store is a \<open>StableBTreeMap\<close> of the azle library, whose code
  is not part of the repository; the four operations below follow the contract that the
  specification gives for them. The store is a list of pairs of key and record, the
  first pair with a key being the record at that key.
\<close>

type_synonym store = "(string \<times> message) list"

text \<open>
  Modelled from the spec: \<open>get\<close> of the missing \<open>StableBTreeMap\<close> returns the current
  record at a key, or absent when the key is not stored; it never fails.
\<close>

definition storage_get :: "store \<Rightarrow> string \<Rightarrow> message option" where
  "storage_get s k = map_of s k"

text \<open>
  Modelled from the spec: \<open>insert\<close> of the missing \<open>StableBTreeMap\<close> inserts or overwrites
  the record at a key, the last write winning, and always succeeds. It also returns
  what the key held before, which the handlers ignore.
\<close>

definition storage_insert :: "store \<Rightarrow> string \<Rightarrow> message \<Rightarrow> message option \<times> store" where
  "storage_insert s k v = (map_of s k, AList.update k v s)"

text \<open>
  Modelled from the spec: \<open>remove\<close> of the missing \<open>StableBTreeMap\<close> removes and returns the
  record stored at a key, or returns absent and changes nothing when there is none.
\<close>

definition storage_remove :: "store \<Rightarrow> string \<Rightarrow> message option \<times> store" where
  "storage_remove s k = (map_of s k, AList.delete k s)"

text \<open>
  Modelled from the spec: \<open>values\<close> of the missing \<open>StableBTreeMap\<close> returns all stored
  records, in an order that callers must not rely on; here the order of the list.
\<close>

definition storage_values :: "store \<Rightarrow> message list" where
  "storage_values s = map snd s"

subsection \<open>Strings\<close>

text \<open>
  A character is a code point below 256 (Latin-1); strings with other characters are
  not modelled. On these \<open>toLowerCase\<close> sends \<open>A\<close> to \<open>Z\<close> (65 to 90) and the accented
  capitals (192 to 222, but not the multiplication sign 215) to the letter 32 places on,
  and leaves every other character.
\<close>

definition lower_char :: "char \<Rightarrow> char" where
  "lower_char c =
     (let n = (of_char c :: nat)
      in if (65 \<le> n \<and> n \<le> 90) \<or> (192 \<le> n \<and> n \<le> 222 \<and> n \<noteq> 215)
         then char_of (n + 32) else c)"

definition toLowerCase :: "string \<Rightarrow> string" where
  "toLowerCase s = map lower_char s"

text \<open>\<open>s.includes(q)\<close>: \<open>q\<close> occurs in \<open>s\<close> at some position.\<close>

fun includes_str :: "string \<Rightarrow> string \<Rightarrow> bool" where
  "includes_str [] q = (q = [])"
| "includes_str (c # cs) q = (take (length q) (c # cs) = q \<or> includes_str cs q)"

subsection \<open>What the store hands back\<close>

text \<open>
  The handlers do not agree on the shape of what \<open>get\<close> and \<open>remove\<close> return. The GET
  and the DELETE handler test the result itself (\<open>!message\<close>, \<open>!deletedMessage\<close>), as for
  a store that returns the record or \<open>null\<close>. The PUT handler tests
  \<open>!messageOpt || !messageOpt.Some\<close> and takes the record from \<open>messageOpt.Some\<close>, as for
  a store that returns an Option, \<open>{Some: record}\<close> or \<open>{None: null}\<close>; its comment says
  so. The store is not part of the repository, so its kind is a parameter and every
  handler is modelled as written, on the JavaScript value it receives.
\<close>

datatype store_api = Returns_option | Returns_null

datatype js_value = Null | Record message | Opt "message option"

text \<open>
  Modelled from the spec: the "optional Message" that \<open>get\<close> and \<open>remove\<close> of the missing
  \<open>StableBTreeMap\<close> return, as the JavaScript value of either kind of store.
\<close>

definition from_store :: "store_api \<Rightarrow> message option \<Rightarrow> js_value" where
  "from_store api r =
     (case api of
        Returns_option \<Rightarrow> Opt r
      | Returns_null \<Rightarrow> (case r of None \<Rightarrow> Null | Some m \<Rightarrow> Record m))"

text \<open>\<open>!v\<close>: of these values only \<open>null\<close> is falsy, every object is truthy.\<close>

definition js_not :: "js_value \<Rightarrow> bool" where
  "js_not v = (v = Null)"

text \<open>
  \<open>v.Some\<close> on a value that is not \<open>null\<close>: the record inside \<open>{Some: record}\<close>, and
  \<open>undefined\<close> (here \<open>None\<close>) on \<open>{None: null}\<close> and on a record, which has no such
  property.
\<close>

definition dot_Some :: "js_value \<Rightarrow> message option" where
  "dot_Some v = (case v of Opt (Some m) \<Rightarrow> Some m | _ \<Rightarrow> None)"

text \<open>
  Modelled from the spec: the store is durable and hands back a snapshot, the data of
  the record as the missing \<open>StableBTreeMap\<close> keeps it in stable memory. The snapshot is
  not an instance of the class \<open>Message\<close> and has no method \<open>update\<close>, so
  \<open>message.update(req.body)\<close> on it throws the TypeError of calling what is not a
  function.
\<close>

definition snapshot_update :: "64 word \<Rightarrow> message \<Rightarrow> partial_message \<Rightarrow> error + message" where
  "snapshot_update t message data = Inl (Error ''message.update is not a function'')"

subsection \<open>Requests, responses and the route handlers\<close>

text \<open>
  A request has a method, a path (its non-empty segments between the slashes), the
  query parameter \<open>query\<close> (a string when given) and the body that \<open>express.json()\<close> has
  parsed, read at the type \<open>Partial<Message>\<close> that the source gives it. Each request
  runs with one reading of the clock and one identifier to draw.
\<close>

datatype http_method = GET | POST | PUT | DELETE

record request =
  req_method :: http_method
  req_path :: "string list"
  req_query :: "string field"
  req_body :: partial_message

record env =
  ic_time :: "64 word"
  uuidv4 :: string

text \<open>
  \<open>res.json(x)\<close> answers with status 200 and \<open>x\<close>; \<open>sendError(res, message, status)\<close>
  answers with the status, 400 unless given, and \<open>{error: message}\<close>. A request that no
  route takes gets the framework's own 404.
\<close>

datatype payload =
  Json_message message
| Json_option "message option"
| Json_null
| Json_messages "message list"
| Json_error string
| No_route

datatype response = Response nat payload

text \<open>The JSON of what the store handed back.\<close>

definition json_of :: "js_value \<Rightarrow> payload" where
  "json_of v = (case v of Null \<Rightarrow> Json_null | Record m \<Rightarrow> Json_message m | Opt r \<Rightarrow> Json_option r)"

definition sendError :: "string \<Rightarrow> nat \<Rightarrow> response" where
  "sendError msg st = Response st (Json_error msg)"

definition not_found :: "string \<Rightarrow> response" where
  "not_found i = sendError (''Message with id='' @ i @ '' not found.'') 404"

definition post_messages :: "env \<Rightarrow> request \<Rightarrow> store \<Rightarrow> response \<times> store" where
  "post_messages e req s =
     (case create (uuidv4 e) (ic_time e) (req_body req) of
        Inr m \<Rightarrow> (Response 200 (Json_message m), snd (storage_insert s (id_msg m) m))
      | Inl (Error msg) \<Rightarrow> (sendError msg 400, s))"

definition get_messages :: "store \<Rightarrow> response \<times> store" where
  "get_messages s = (Response 200 (Json_messages (storage_values s)), s)"

definition get_message :: "store_api \<Rightarrow> string \<Rightarrow> store \<Rightarrow> response \<times> store" where
  "get_message api i s =
     (let message = from_store api (storage_get s i)
      in if js_not message then (not_found i, s)
         else (Response 200 (json_of message), s))"

text \<open>
  The PUT handler: the 404 when the result or its \<open>Some\<close> is falsy; otherwise the call
  of \<open>update\<close> on what \<open>Some\<close> holds, inside \<open>try\<close>, whose \<open>catch\<close> answers 400 with the
  message of the error.
\<close>

definition put_message :: "store_api \<Rightarrow> env \<Rightarrow> string \<Rightarrow> request \<Rightarrow> store \<Rightarrow> response \<times> store" where
  "put_message api e i req s =
     (let messageOpt = from_store api (storage_get s i)
      in if js_not messageOpt then (not_found i, s)
         else case dot_Some messageOpt of
                None \<Rightarrow> (not_found i, s)
              | Some message \<Rightarrow>
                  (case snapshot_update (ic_time e) message (req_body req) of
                     Inr updatedMessage \<Rightarrow>
                       (Response 200 (Json_message updatedMessage),
                        snd (storage_insert s (id_msg updatedMessage) updatedMessage))
                   | Inl (Error msg) \<Rightarrow> (sendError msg 400, s)))"

definition delete_message :: "store_api \<Rightarrow> string \<Rightarrow> store \<Rightarrow> response \<times> store" where
  "delete_message api i s =
     (case storage_remove s i of
        (r, s') \<Rightarrow>
          let deletedMessage = from_store api r
          in if js_not deletedMessage then (not_found i, s')
             else (Response 200 (json_of deletedMessage), s'))"

definition search_messages :: "request \<Rightarrow> store \<Rightarrow> response \<times> store" where
  "search_messages req s =
     (case req_query req of
        Absent \<Rightarrow> (sendError ''Query parameter is required.'' 400, s)
      | Present q \<Rightarrow>
          let query = toLowerCase q
          in if query = [] then (sendError ''Query parameter is required.'' 400, s)
             else (Response 200 (Json_messages
                     (filter (\<lambda>message. includes_str (toLowerCase (title message)) query \<or>
                                         includes_str (toLowerCase (body message)) query)
                        (storage_values s))), s))"

subsection \<open>Routing\<close>

text \<open>
  Express keeps the routes in the order of their registration and hands a request to
  the first route whose method and path match; a handler that answers without calling
  \<open>next()\<close>, as all six do, ends the request. The literal segments of a route match
  whatever the case of the letters, as Express does by default, and a segment \<open>:id\<close>
  matches any non-empty segment and binds it as it is written.
\<close>

datatype segment = Lit string | Param string

fun match_path :: "segment list \<Rightarrow> string list \<Rightarrow> (string \<times> string) list option" where
  "match_path [] [] = Some []"
| "match_path (Lit l # ps) (x # xs) =
     (if toLowerCase l = toLowerCase x then match_path ps xs else None)"
| "match_path (Param n # ps) (x # xs) =
     (if x = [] then None else map_option ((#) (n, x)) (match_path ps xs))"
| "match_path _ _ = None"

text \<open>\<open>req.params.id\<close>; a route with \<open>:id\<close> always binds it.\<close>

definition params_id :: "(string \<times> string) list \<Rightarrow> string" where
  "params_id ps = (case map_of ps ''id'' of Some v \<Rightarrow> v | None \<Rightarrow> ''undefined'')"

type_synonym handler = "env \<Rightarrow> request \<Rightarrow> (string \<times> string) list \<Rightarrow> store \<Rightarrow> response \<times> store"

text \<open>The six routes, in the order in which the source registers them.\<close>

definition routes :: "store_api \<Rightarrow> (http_method \<times> segment list \<times> handler) list" where
  "routes api =
     [(POST, [Lit ''messages''], \<lambda>e req ps s. post_messages e req s),
      (GET, [Lit ''messages''], \<lambda>e req ps s. get_messages s),
      (GET, [Lit ''messages'', Param ''id''], \<lambda>e req ps s. get_message api (params_id ps) s),
      (PUT, [Lit ''messages'', Param ''id''], \<lambda>e req ps s. put_message api e (params_id ps) req s),
      (DELETE, [Lit ''messages'', Param ''id''], \<lambda>e req ps s. delete_message api (params_id ps) s),
      (GET, [Lit ''messages'', Lit ''search''], \<lambda>e req ps s. search_messages req s)]"

fun dispatch :: "(http_method \<times> segment list \<times> handler) list \<Rightarrow> handler" where
  "dispatch [] e req ps s = (Response 404 No_route, s)"
| "dispatch ((m, pat, h) # rs) e req ps s =
     (if m = req_method req
      then case match_path pat (req_path req) of
             Some ps' \<Rightarrow> h e req ps' s
           | None \<Rightarrow> dispatch rs e req ps s
      else dispatch rs e req ps s)"

definition app :: "store_api \<Rightarrow> env \<Rightarrow> request \<Rightarrow> store \<Rightarrow> response \<times> store" where
  "app api e req s = dispatch (routes api) e req [] s"

text \<open>
  A run of the canister: the requests are served one after the other, each with its
  own environment, starting from a store.
\<close>

fun run :: "store_api \<Rightarrow> (env \<times> request) list \<Rightarrow> store \<Rightarrow> store" where
  "run api [] s = s"
| "run api ((e, req) # evs) s = run api evs (snd (app api e req s))"


subsection \<open>The words of the specification\<close>

text \<open>
  "Contains case-insensitively", as the specification words the search: the lower-cased
  query occurs somewhere in the lower-cased text.
\<close>

definition contains_ci :: "string \<Rightarrow> string \<Rightarrow> bool" where
  "contains_ci s q = (\<exists>ps ss. toLowerCase s = ps @ toLowerCase q @ ss)"

subsection \<open>Sample inputs\<close>

text \<open>The body \<open>{}\<close>: no field is supplied.\<close>

definition no_fields :: partial_message where
  "no_fields = \<lparr>p_id = Absent, p_title = Absent, p_body = Absent,
                 p_attachmentURL = Absent, p_createdAt = Absent, p_updatedAt = Absent\<rparr>"

text \<open>Two stored messages, a request that searches them and an environment.\<close>

definition cat_message :: message where
  "cat_message = \<lparr>id_msg = ''id-1'', title = ''Cat'', body = ''cat sat'', attachmentURL = None,
                   createdAt = 1700000000000, updatedAt = None\<rparr>"

definition dog_message :: message where
  "dog_message = \<lparr>id_msg = ''id-2'', title = ''Dog'', body = ''dog ran'', attachmentURL = None,
                   createdAt = 1700000000001, updatedAt = None\<rparr>"

definition two_messages :: store where
  "two_messages = [(''id-1'', cat_message), (''id-2'', dog_message)]"

definition search_request :: "string \<Rightarrow> request" where
  "search_request q = \<lparr>req_method = GET, req_path = [''messages'', ''search''],
                        req_query = Present q, req_body = no_fields\<rparr>"

definition sample_env :: env where
  "sample_env = \<lparr>ic_time = 1700000000002000000, uuidv4 = ''id-3''\<rparr>"

text \<open>Requests for one id: its removal, its update and its reading.\<close>

definition id_request :: "http_method \<Rightarrow> string \<Rightarrow> request" where
  "id_request m i = \<lparr>req_method = m, req_path = [''messages'', i], req_query = Absent,
                      req_body = no_fields\<lparr>p_body := Present ''World!''\<rparr>\<rparr>"

text \<open>The input of a creation, and an update of the body a second later.\<close>

definition hello_world :: partial_message where
  "hello_world = no_fields\<lparr>p_title := Present ''Hello'', p_body := Present ''World''\<rparr>"


section \<open>The clock\<close>

text \<open>
  The two roundings of \<open>getCurrentDate\<close>, the conversion of the reading to a double and
  the division of doubles, are monotone, and below \<open>2 ^ 53\<close> they are exact.
\<close>

subsection \<open>Binary digits\<close>

text \<open>A positive \<open>n\<close> has \<open>bitlen n\<close> digits: \<open>2 ^ (bitlen n - 1) \<le> n < 2 ^ bitlen n\<close>.\<close>

lemma bitlen_0: "bitlen 0 = 0"
  by (simp add: bitlen.simps)

lemma bitlen_pos: "0 < n \<Longrightarrow> bitlen n = Suc (bitlen (n div 2))"
  by (subst bitlen.simps) simp

lemma bitlen_lt: "n < 2 ^ bitlen n"
proof (induction n rule: bitlen.induct)
  case (1 n)
  show ?case
  proof (cases "n = 0")
    case True
    then show ?thesis by (simp add: bitlen_0)
  next
    case False
    then have "n div 2 < 2 ^ bitlen (n div 2)" using 1 by simp
    then have "n < 2 * 2 ^ bitlen (n div 2)" by linarith
    then show ?thesis using False by (simp add: bitlen_pos)
  qed
qed

lemma bitlen_ge: "0 < n \<Longrightarrow> 2 ^ (bitlen n - 1) \<le> n"
proof (induction n rule: bitlen.induct)
  case (1 n)
  show ?case
  proof (cases "n div 2 = 0")
    case True
    then have "bitlen n = 1" using 1(2) by (simp add: bitlen_pos bitlen_0)
    then show ?thesis using 1(2) by simp
  next
    case False
    then have ih: "2 ^ (bitlen (n div 2) - 1) \<le> n div 2" using 1 by simp
    have "0 < bitlen (n div 2)" using False by (simp add: bitlen_pos)
    then have "(2::nat) ^ bitlen (n div 2) = 2 * 2 ^ (bitlen (n div 2) - 1)"
      by (cases "bitlen (n div 2)") simp_all
    then have "2 ^ bitlen (n div 2) \<le> n" using ih by linarith
    then show ?thesis using 1(2) by (simp add: bitlen_pos)
  qed
qed

lemma bitlen_eqI: "2 ^ k \<le> n \<Longrightarrow> n < 2 ^ Suc k \<Longrightarrow> bitlen n = Suc k"
proof -
  assume lo: "2 ^ k \<le> n" and hi: "n < 2 ^ Suc k"
  have pos: "0 < n" using lo by (metis gr0I not_one_le_zero one_le_numeral one_le_power le_zero_eq)
  have "(2::nat) ^ k < 2 ^ bitlen n" using lo bitlen_lt [of n] by linarith
  then have a: "k < bitlen n" by (simp add: power_strict_increasing_iff)
  have "(2::nat) ^ (bitlen n - 1) < 2 ^ Suc k" using hi bitlen_ge [OF pos] by linarith
  then have "bitlen n - 1 < Suc k" by (simp only: power_strict_increasing_iff)
  then show ?thesis using a by linarith
qed


lemma bitlen_le_iff: "bitlen n \<le> k \<longleftrightarrow> n < 2 ^ k"
proof
  assume "bitlen n \<le> k"
  then have "(2::nat) ^ bitlen n \<le> 2 ^ k" by (simp add: power_increasing)
  then show "n < 2 ^ k" using bitlen_lt [of n] by linarith
next
  assume h: "n < 2 ^ k"
  show "bitlen n \<le> k"
  proof (cases "n = 0")
    case True
    then show ?thesis by (simp add: bitlen_0)
  next
    case False
    then have "(2::nat) ^ (bitlen n - 1) < 2 ^ k" using bitlen_ge [of n] h by linarith
    then have "bitlen n - 1 < k" by (simp only: power_strict_increasing_iff)
    then show ?thesis by linarith
  qed
qed


subsection \<open>Rounding to the nearest, ties to even\<close>

text \<open>
  The rounded quotient lies between the quotient and its successor, grows with the
  dividend, and stays below \<open>N\<close> when the exact quotient is below \<open>N - 1/2\<close>.
\<close>

lemma rte_lower: "a div b \<le> round_ties_even a b"
  by (simp add: round_ties_even_def Let_def)

lemma rte_upper: "round_ties_even a b \<le> a div b + 1"
  by (simp add: round_ties_even_def Let_def)


lemma rte_less:
  assumes "0 < b" and "2 * a < (2 * N - 1) * b"
  shows "round_ties_even a b < N"
proof -
  have N: "0 < N" using assms(2) by (cases N) simp_all
  have a: "a = b * (a div b) + a mod b" by simp
  have r: "a mod b < b" using assms(1) by simp
  show ?thesis
  proof (cases "a div b + 1 < N")
    case True
    then show ?thesis using rte_upper [of a b] by linarith
  next
    case False
    then have ge: "N - 1 \<le> a div b" by simp
    have "(N - 1) * b \<le> (a div b) * b" using ge by (rule mult_le_mono1)
    then have lo: "(N - 1) * b \<le> a" using a by (metis le_add1 le_trans mult.commute)
    have "(2 * N - 1) * b = 2 * ((N - 1) * b) + b" using N
      by (cases N) (simp_all add: algebra_simps)
    then have up: "2 * a < 2 * ((N - 1) * b) + b" using assms(2) by simp
    have "a div b < N"
    proof (rule ccontr)
      assume "\<not> a div b < N"
      then have "N \<le> a div b" by simp
      then have "N * b \<le> (a div b) * b" by (rule mult_le_mono1)
      then have "N * b \<le> a" using a by (metis le_add1 le_trans mult.commute)
      moreover have "N * b = (N - 1) * b + b" using N by (cases N) simp_all
      ultimately show False using up by linarith
    qed
    then have q: "a div b = N - 1" using ge by simp
    have "a = b * (N - 1) + a mod b" using a q by simp
    then have "2 * a = 2 * ((N - 1) * b) + 2 * (a mod b)" by (simp add: algebra_simps)
    then have "2 * (a mod b) < b" using up by linarith
    then have "round_ties_even a b = a div b" by (simp add: round_ties_even_def Let_def)
    then show ?thesis using q N by simp
  qed
qed

subsection \<open>Number\<close>




lemma Number_small: "n < 2 ^ 53 \<Longrightarrow> Number n = n"
proof -
  assume "n < 2 ^ 53"
  then have "bitlen n \<le> 53" by (simp only: bitlen_le_iff)
  then show ?thesis by (simp add: Number_def round_ties_even_def)
qed



subsection \<open>Division of doubles, floored\<close>

text \<open>
  For a quotient below \<open>2 ^ 53\<close> the floor of the rounded quotient is the significand
  shifted back, which lies between \<open>x div d\<close> and its successor.
\<close>

lemma floor_of_nat_ratio: "Math_floor (of_nat m / of_nat n) = int (m div n)"
  by (simp add: Math_floor_def floor_divide_of_nat_eq)

lemma float_divide_ge:
  assumes "0 < d" and "d \<le> x" and "x div d < 2 ^ 53"
  shows "Math_floor (float_divide x d) =
           int (round_ties_even (x * 2 ^ (53 - bitlen (x div d))) d div 2 ^ (53 - bitlen (x div d)))"
proof -
  have x: "x \<noteq> 0" using assms by linarith
  have "0 < x div d" using assms by (simp add: div_greater_zero_iff)
  then have lo: "0 < bitlen (x div d)" by (simp add: bitlen_pos)
  have hi: "bitlen (x div d) \<le> 53" using assms(3) by (simp only: bitlen_le_iff)
  have p: "int (bitlen (x div d)) - 1 \<le> 52" using hi by linarith
  have s: "nat (52 - (int (bitlen (x div d)) - 1)) = 53 - bitlen (x div d)" using lo hi by linarith
  have "float_divide x d =
          of_nat (round_ties_even (x * 2 ^ (53 - bitlen (x div d))) d) / of_nat (2 ^ (53 - bitlen (x div d)))"
    unfolding float_divide_def Let_def using x assms(2) p s by (simp only: if_True if_False)
  then show ?thesis by (simp only: floor_of_nat_ratio)
qed

lemma float_divide_lt:
  assumes "0 < x" and "x < d"
  shows "Math_floor (float_divide x d) =
           int (round_ties_even (x * 2 ^ (52 + doublings x d)) d div 2 ^ (52 + doublings x d))"
proof -
  have x: "x \<noteq> 0" "\<not> d \<le> x" using assms by linarith+
  have p: "- int (doublings x d) \<le> 52" by linarith
  have s: "nat (52 - (- int (doublings x d))) = 52 + doublings x d" by linarith
  have "float_divide x d =
          of_nat (round_ties_even (x * 2 ^ (52 + doublings x d)) d) / of_nat (2 ^ (52 + doublings x d))"
    unfolding float_divide_def Let_def using x p s by (simp only: if_True if_False)
  then show ?thesis by (simp only: floor_of_nat_ratio)
qed

lemma scaled_lower:
  assumes "0 < d"
  shows "x div d \<le> round_ties_even (x * 2 ^ s) d div 2 ^ s"
proof -
  have "(x div d) * d \<le> x" by simp
  then have "(x div d) * d * 2 ^ s \<le> x * 2 ^ s" by (rule mult_le_mono1)
  then have "(x div d) * 2 ^ s * d \<le> x * 2 ^ s" by (simp add: mult.assoc mult.commute [of d])
  then have "(x div d) * 2 ^ s \<le> (x * 2 ^ s) div d"
    using assms by (simp only: less_eq_div_iff_mult_less_eq)
  then have "(x div d) * 2 ^ s \<le> round_ties_even (x * 2 ^ s) d"
    using rte_lower [of "x * 2 ^ s" d] by linarith
  then show ?thesis by (simp add: less_eq_div_iff_mult_less_eq)
qed


lemma scaled_zero:
  assumes "x < d" and "d < 2 ^ 53" and "52 \<le> s"
  shows "round_ties_even (x * 2 ^ s) d div 2 ^ s = 0"
proof -
  have d: "0 < d" using assms(1) by linarith
  have "(2::nat) ^ 53 \<le> 2 ^ Suc s" using assms(3) by (simp only: power_increasing_iff one_less_numeral_iff semiring_norm)
  then have dP: "d < 2 * 2 ^ s" using assms(2) by simp
  have "(x + 1) * 2 ^ s \<le> d * 2 ^ s" using assms(1) by (intro mult_le_mono1) simp
  then have A: "x * 2 ^ s + 2 ^ s \<le> d * 2 ^ s" by (simp add: algebra_simps)
  have B: "(2 * 2 ^ s - 1) * d = 2 * (d * 2 ^ s) - d" by (simp add: algebra_simps diff_mult_distrib)
  have "d \<le> d * 2 ^ s" by simp
  then have "2 * (x * 2 ^ s) < 2 * (d * 2 ^ s) - d" using A dP by linarith
  then have "2 * (x * 2 ^ s) < (2 * 2 ^ s - 1) * d" by (simp only: B)
  then have "round_ties_even (x * 2 ^ s) d < 2 ^ s" using d by (rule rte_less [rotated])
  then show ?thesis by simp
qed

lemma scaled_exact:
  assumes "0 < d" and "d < 2 * 2 ^ s"
  shows "round_ties_even (x * 2 ^ s) d div 2 ^ s = x div d"
proof -
  let ?q = "x div d"
  have "x < (?q + 1) * d" using assms(1)
    by (metis Suc_eq_plus1 dividend_less_div_times mult.commute add.commute mult_Suc)
  then have "x + 1 \<le> (?q + 1) * d" by simp
  then have "(x + 1) * 2 ^ s \<le> ((?q + 1) * d) * 2 ^ s" by (rule mult_le_mono1)
  then have A: "x * 2 ^ s + 2 ^ s \<le> ((?q + 1) * 2 ^ s) * d"
    by (simp add: algebra_simps)
  have B: "(2 * ((?q + 1) * 2 ^ s) - 1) * d = 2 * (((?q + 1) * 2 ^ s) * d) - d"
    by (simp add: algebra_simps diff_mult_distrib)
  have "(1::nat) \<le> 2 ^ s" by simp
  then have "1 \<le> (?q + 1) * 2 ^ s" by (simp add: add_mult_distrib trans_le_add1)
  then have "1 * d \<le> ((?q + 1) * 2 ^ s) * d" by (rule mult_le_mono1)
  then have "d \<le> ((?q + 1) * 2 ^ s) * d" by simp
  then have "2 * (x * 2 ^ s) < 2 * (((?q + 1) * 2 ^ s) * d) - d"
    using A assms(2) by linarith
  then have "2 * (x * 2 ^ s) < (2 * ((?q + 1) * 2 ^ s) - 1) * d" by (simp only: B)
  then have "round_ties_even (x * 2 ^ s) d < (?q + 1) * 2 ^ s"
    using assms(1) by (rule rte_less [rotated])
  then have "round_ties_even (x * 2 ^ s) d div 2 ^ s < ?q + 1"
    by (simp add: less_mult_imp_div_less)
  then show ?thesis using scaled_lower [OF assms(1), of x s] by linarith
qed

lemma float_divide_zero: "Math_floor (float_divide 0 d) = 0"
  by (simp add: float_divide_def Math_floor_def)

lemma float_divide_small:
  assumes "x < d" and "d < 2 ^ 53"
  shows "Math_floor (float_divide x d) = 0"
proof (cases "x = 0")
  case True
  then show ?thesis by (simp only: float_divide_zero)
next
  case False
  then have "0 < x" by simp
  then show ?thesis using assms
    by (simp only: float_divide_lt scaled_zero [OF assms le_add1] of_nat_0)
qed




text \<open>
  Below \<open>2 ^ 53\<close> nanoseconds, the first 104 days of 1970, nothing is rounded and the
  timestamp is the millisecond truncation of the reading.
\<close>

lemma getCurrentDate_exact:
  assumes "unat t < 2 ^ 53"
  shows "getCurrentDate t = int (unat t div 1000000)"
proof (cases "unat t < 1000000")
  case True
  then have "Math_floor (float_divide (unat t) 1000000) = 0"
    by (rule float_divide_small) simp
  then show ?thesis using True assms by (simp add: getCurrentDate_def Number_small)
next
  case False
  let ?x = "unat t"
  have ge: "1000000 \<le> ?x" using False by simp
  have "?x div 1000000 \<le> 2 ^ 53 div 1000000" using assms by (intro div_le_mono) simp
  then have q: "?x div 1000000 < 2 ^ 34" by simp
  then have "bitlen (?x div 1000000) \<le> 34" by (simp only: bitlen_le_iff)
  then have "(2::nat) ^ 19 \<le> 2 ^ (53 - bitlen (?x div 1000000))"
    by (intro power_increasing) simp_all
  then have d: "(1000000::nat) < 2 * 2 ^ (53 - bitlen (?x div 1000000))" by simp
  have q': "?x div 1000000 < 2 ^ 53" using q by simp
  have "Math_floor (float_divide ?x 1000000) = int (?x div 1000000)"
    by (simp only: float_divide_ge [OF _ ge q'] scaled_exact [OF _ d] zero_less_numeral)
  then show ?thesis using assms by (simp add: getCurrentDate_def Number_small)
qed

subsection \<open>A reading taken on 14 November 2023\<close>

lemma bitlen_ex: "bitlen 1699999999999999999 = 61"
proof -
  have "bitlen 1699999999999999999 = Suc 60"
    by (rule bitlen_eqI) simp_all
  then show ?thesis by simp
qed

lemma Number_ex: "Number 1699999999999999999 = 1700000000000000000"
  by (simp add: Number_def bitlen_ex round_ties_even_def Let_def)

lemma float_divide_ex: "Math_floor (float_divide 1700000000000000000 1000000) = 1700000000000"
proof -
  have b: "bitlen (1700000000000000000 div 1000000) = Suc 40"
    by (rule bitlen_eqI) simp_all
  show ?thesis
    by (subst float_divide_ge) (simp_all add: b round_ties_even_def Let_def)
qed

text \<open>
  C8: the stored timestamp is not always the millisecond truncation of the clock
  reading. One nanosecond before 22:13:20 UTC on 14 November 2023 the conversion to a
  double rounds the reading up to the full second, and the timestamp is one
  millisecond ahead of \<open>\<lfloor>t / 1000000\<rfloor>\<close>.
\<close>

theorem clock_not_truncation:
  "getCurrentDate 1699999999999999999 = 1700000000000 \<and>
   int (unat (1699999999999999999 :: 64 word)) div 1000000 = 1699999999999"
proof
  show "getCurrentDate 1699999999999999999 = 1700000000000"
    by (simp add: getCurrentDate_def Number_ex float_divide_ex)
  show "int (unat (1699999999999999999 :: 64 word)) div 1000000 = 1699999999999"
    by simp
qed

section \<open>Message.create and Message.update\<close>

text \<open>\<open>create\<close> by the shape of its input: the two truthiness tests, read as cases.\<close>

lemma create_cases:
  "create u t d =
     (case (p_title d, p_body d) of
        (Present a, Present b) \<Rightarrow>
          if a = [] \<or> b = [] then Inl (Error ''Both 'title' and 'body' are required.'')
          else Inr \<lparr>id_msg = u, title = a, body = b, attachmentURL = or_null (p_attachmentURL d),
                    createdAt = getCurrentDate t, updatedAt = None\<rparr>
      | _ \<Rightarrow> Inl (Error ''Both 'title' and 'body' are required.''))"
  by (simp add: create_def falsy_def split: field.splits)

text \<open>
  C1: \<open>create\<close> fails with the validation error exactly when the title or the body of the
  input is missing or empty. Otherwise it returns a message whose id is the identifier
  just generated, whose title and body are the supplied ones, whose \<open>createdAt\<close> is the
  current clock value and whose \<open>updatedAt\<close> is absent.
\<close>

theorem create_validates:
  "(if p_title d = Absent \<or> p_title d = Present [] \<or> p_body d = Absent \<or> p_body d = Present []
    then create u t d = Inl (Error ''Both 'title' and 'body' are required.'')
    else \<exists>m. create u t d = Inr m \<and> id_msg m = u \<and> p_title d = Present (title m) \<and>
           p_body d = Present (body m) \<and> createdAt m = getCurrentDate t \<and> updatedAt m = None)"
  by (auto simp: create_cases split: field.splits)

theorem create_validates_witness:
  "(\<exists>m. create ''id-1'' 5 (no_fields\<lparr>p_title := Present ''Hello'', p_body := Present ''World''\<rparr>) = Inr m
       \<and> id_msg m = ''id-1'' \<and> title m = ''Hello'' \<and> body m = ''World''
       \<and> createdAt m = getCurrentDate 5 \<and> updatedAt m = None)
   \<and> create ''id-1'' 5 (no_fields\<lparr>p_title := Present ''Hello''\<rparr>)
       = Inl (Error ''Both 'title' and 'body' are required.'')"
  using create_validates [of "no_fields\<lparr>p_title := Present ''Hello'', p_body := Present ''World''\<rparr>" "''id-1''" 5]
    create_validates [of "no_fields\<lparr>p_title := Present ''Hello''\<rparr>" "''id-1''" 5]
  by (auto simp: no_fields_def)

text \<open>
  C2: \<open>update\<close> overwrites exactly the fields present in its input, an explicit null for
  \<open>attachmentURL\<close> included, leaves the fields absent from the input unchanged, never
  changes \<open>id\<close> and \<open>createdAt\<close>, and sets \<open>updatedAt\<close> to the current time whatever the
  input holds.
\<close>

theorem update_merges:
  "id_msg (update t m d) = id_msg m \<and>
   createdAt (update t m d) = createdAt m \<and>
   updatedAt (update t m d) = Some (getCurrentDate t) \<and>
   title (update t m d) = (case p_title d of Present v \<Rightarrow> v | Absent \<Rightarrow> title m) \<and>
   body (update t m d) = (case p_body d of Present v \<Rightarrow> v | Absent \<Rightarrow> body m) \<and>
   attachmentURL (update t m d) =
     (case p_attachmentURL d of Present v \<Rightarrow> v | Absent \<Rightarrow> attachmentURL m) \<and>
   attachmentURL (update t m (d\<lparr>p_attachmentURL := Present None\<rparr>)) = None"
  by (simp add: update_def Let_def split: field.splits)

text \<open>
  C7: \<open>update\<close> does not validate: given an empty title (or an empty body) it sets the
  field to the empty string, where \<open>create\<close> rejects the same input.
\<close>

theorem update_accepts_empty:
  "title (update t m (d\<lparr>p_title := Present []\<rparr>)) = [] \<and>
   body (update t m (d\<lparr>p_body := Present []\<rparr>)) = [] \<and>
   create u t (d\<lparr>p_title := Present []\<rparr>) = Inl (Error ''Both 'title' and 'body' are required.'') \<and>
   create u t (d\<lparr>p_body := Present []\<rparr>) = Inl (Error ''Both 'title' and 'body' are required.'')"
  by (simp add: update_def Let_def create_def falsy_def split: field.splits)

text \<open>
  C9: an empty string given as \<open>attachmentURL\<close> to \<open>create\<close> gives the same result as no
  attachment and as an explicit null, and the created message has no attachment.
\<close>

theorem create_empty_attachment:
  "create u t (d\<lparr>p_attachmentURL := Present (Some [])\<rparr>) = create u t (d\<lparr>p_attachmentURL := Absent\<rparr>) \<and>
   create u t (d\<lparr>p_attachmentURL := Present (Some [])\<rparr>) = create u t (d\<lparr>p_attachmentURL := Present None\<rparr>) \<and>
   (\<forall>m. create u t (d\<lparr>p_attachmentURL := Present (Some [])\<rparr>) = Inr m \<longrightarrow> attachmentURL m = None)"
  by (auto simp: create_cases or_null_def split: field.splits if_splits)

theorem create_empty_attachment_witness:
  "create ''id-1'' 5 (no_fields\<lparr>p_title := Present ''Hello'', p_body := Present ''World'',
       p_attachmentURL := Present (Some [])\<rparr>)
     = Inr \<lparr>id_msg = ''id-1'', title = ''Hello'', body = ''World'', attachmentURL = None,
            createdAt = getCurrentDate 5, updatedAt = None\<rparr>
   \<and> attachmentURL \<lparr>id_msg = ''id-1'', title = ''Hello'', body = ''World'', attachmentURL = None,
            createdAt = getCurrentDate 5, updatedAt = None\<rparr> = None"
  using create_empty_attachment [of "''id-1''" 5 "no_fields\<lparr>p_title := Present ''Hello'', p_body := Present ''World''\<rparr>"]
  by (simp add: no_fields_def create_cases or_null_def)

text \<open>
  C10: \<open>create\<close> ignores the fields \<open>id\<close>, \<open>createdAt\<close> and \<open>updatedAt\<close> of its input: the
  result is the same without them, with the generated identifier as id and the clock's
  value as \<open>createdAt\<close>.
\<close>

theorem create_ignores_identity:
  "create u t (d\<lparr>p_id := a, p_createdAt := b, p_updatedAt := c\<rparr>) = create u t d \<and>
   (\<forall>m. create u t d = Inr m \<longrightarrow>
        id_msg m = u \<and> createdAt m = getCurrentDate t \<and> updatedAt m = None)"
  by (auto simp: create_cases split: field.splits if_splits)

theorem create_ignores_identity_witness:
  "create ''id-1'' 5 (no_fields\<lparr>p_id := Present ''mine'', p_title := Present ''Hello'',
       p_body := Present ''World'', p_createdAt := Present 0, p_updatedAt := Present (Some 7)\<rparr>)
     = Inr \<lparr>id_msg = ''id-1'', title = ''Hello'', body = ''World'', attachmentURL = None,
            createdAt = getCurrentDate 5, updatedAt = None\<rparr>"
  using create_ignores_identity [where u = "''id-1''" and t = 5 and a = "Present ''mine''"
      and b = "Present 0" and c = "Present (Some 7)"
      and d = "no_fields\<lparr>p_title := Present ''Hello'', p_body := Present ''World''\<rparr>"]
  by (simp add: no_fields_def create_cases or_null_def)

section \<open>The store and its handlers\<close>

lemma storage_get_insert:
  "storage_get (snd (storage_insert s k v)) k' = (if k' = k then Some v else storage_get s k')"
  by (simp add: storage_get_def storage_insert_def update_conv')

lemma storage_get_remove:
  "storage_get (snd (storage_remove s k)) k' = (if k' = k then None else storage_get s k')"
  by (simp add: storage_get_def storage_remove_def delete_conv')

lemma storage_remove_absent: "storage_get s k = None \<Longrightarrow> storage_remove s k = (None, s)"
  by (simp add: storage_get_def storage_remove_def map_of_eq_None_iff)

text \<open>Matching the literal segments of the routes.\<close>

lemma lower_messages: "toLowerCase ''messages'' = ''messages''"
  by (simp add: toLowerCase_def lower_char_def)

lemma lower_search: "toLowerCase ''search'' = ''search''"
  by (simp add: toLowerCase_def lower_char_def)

lemma app_id_request:
  "i \<noteq> [] \<Longrightarrow>
   app api e (id_request m i) s =
     (case m of
        GET \<Rightarrow> get_message api i s
      | PUT \<Rightarrow> put_message api e i (id_request m i) s
      | DELETE \<Rightarrow> delete_message api i s
      | POST \<Rightarrow> (Response 404 No_route, s))"
  by (cases m) (simp_all add: app_def routes_def id_request_def params_id_def lower_messages)

text \<open>
  C3: reading a message's id right after inserting the message under it returns the
  message; inserting at a key that holds a record overwrites the record, the last write
  winning; \<open>insert\<close> has no failing case. Through the handlers: the message that
  \<open>POST /messages\<close> creates is the one \<open>GET /messages/:id\<close> returns for its id, as the
  record itself from a store that returns records and inside \<open>Some\<close> from a store that
  returns Options.
\<close>

theorem insert_then_get:
  "storage_get (snd (storage_insert s (id_msg m) m)) (id_msg m) = Some m \<and>
   storage_get (snd (storage_insert (snd (storage_insert s k old)) k new)) k = Some new \<and>
   (\<forall>m'. create (uuidv4 e) (ic_time e) (req_body req) = Inr m' \<longrightarrow>
      post_messages e req s = (Response 200 (Json_message m'), snd (storage_insert s (id_msg m') m')) \<and>
      get_message Returns_null (id_msg m') (snd (post_messages e req s))
        = (Response 200 (Json_message m'), snd (post_messages e req s)) \<and>
      get_message Returns_option (id_msg m') (snd (post_messages e req s))
        = (Response 200 (Json_option (Some m')), snd (post_messages e req s)))"
  by (simp add: storage_get_insert post_messages_def get_message_def from_store_def js_not_def
        json_of_def)

theorem insert_then_get_witness:
  "create (uuidv4 sample_env) (ic_time sample_env)
       (req_body \<lparr>req_method = POST, req_path = [''messages''], req_query = Absent,
          req_body = hello_world\<rparr>)
     = Inr \<lparr>id_msg = ''id-3'', title = ''Hello'', body = ''World'', attachmentURL = None,
            createdAt = getCurrentDate 1700000000002000000, updatedAt = None\<rparr>
   \<and> fst (get_message Returns_null ''id-3''
       (snd (post_messages sample_env
          \<lparr>req_method = POST, req_path = [''messages''], req_query = Absent,
            req_body = hello_world\<rparr> two_messages)))
     = Response 200 (Json_message \<lparr>id_msg = ''id-3'', title = ''Hello'', body = ''World'',
          attachmentURL = None, createdAt = getCurrentDate 1700000000002000000, updatedAt = None\<rparr>)
   \<and> fst (get_message Returns_option ''id-3''
       (snd (post_messages sample_env
          \<lparr>req_method = POST, req_path = [''messages''], req_query = Absent,
            req_body = hello_world\<rparr> two_messages)))
     = Response 200 (Json_option (Some \<lparr>id_msg = ''id-3'', title = ''Hello'', body = ''World'',
          attachmentURL = None, createdAt = getCurrentDate 1700000000002000000, updatedAt = None\<rparr>))"
  using insert_then_get [where e = sample_env and s = two_messages
      and m = cat_message and k = "''id-1''" and old = cat_message and new = dog_message
      and req = "\<lparr>req_method = POST, req_path = [''messages''], req_query = Absent,
            req_body = hello_world\<rparr>"]
  by (auto simp: sample_env_def no_fields_def hello_world_def create_cases or_null_def)

text \<open>The DELETE handler removes what \<open>remove\<close> removes, whatever it answers.\<close>

lemma delete_message_removes: "snd (delete_message api i s) = snd (storage_remove s i)"
  by (simp add: delete_message_def Let_def split: prod.splits)

text \<open>
  With a store that returns records or \<open>null\<close>, the reading under which the DELETE
  handler reports a missing id, the PUT handler finds no stored id.
\<close>

lemma put_message_Returns_null: "put_message Returns_null e i req s = (not_found i, s)"
  by (simp add: put_message_def from_store_def js_not_def dot_Some_def Let_def
           split: option.splits)

text \<open>
  C4: a removal of an id that is not stored is not reported as not found. With the
  store that returns Options, which the PUT handler and its comment assume,
  \<open>DELETE /messages/id-9\<close> is answered with status 200 and \<open>{None: null}\<close>, where the PUT
  handler answers the same missing id with the 404. Only with a store that returns
  \<open>null\<close> does the DELETE handler answer 404. In the store the removal is as claimed: a
  stored id is removed and the other record stays.
\<close>

theorem delete_missing_not_reported:
  "app Returns_option sample_env (id_request DELETE ''id-9'') two_messages
     = (Response 200 (Json_option None), two_messages) \<and>
   app Returns_option sample_env (id_request PUT ''id-9'') two_messages
     = (Response 404 (Json_error ''Message with id=id-9 not found.''), two_messages) \<and>
   app Returns_null sample_env (id_request DELETE ''id-9'') two_messages
     = (Response 404 (Json_error ''Message with id=id-9 not found.''), two_messages) \<and>
   app Returns_option sample_env (id_request DELETE ''id-1'') two_messages
     = (Response 200 (Json_option (Some cat_message)), [(''id-2'', dog_message)])"
  by (simp add: app_id_request delete_message_def put_message_def storage_remove_def
        storage_get_def two_messages_def from_store_def js_not_def dot_Some_def json_of_def
        not_found_def sendError_def Let_def)

section \<open>Search\<close>

text \<open>\<open>includes\<close> is the occurrence of the query as a contiguous part of the text.\<close>

lemma includes_str_iff: "includes_str s q \<longleftrightarrow> (\<exists>ps ss. s = ps @ q @ ss)"
proof (induction s)
  case Nil
  then show ?case by simp
next
  case (Cons c cs)
  have "(\<exists>ps ss. c # cs = ps @ q @ ss) \<longleftrightarrow>
        (\<exists>ss. c # cs = q @ ss) \<or> (\<exists>ps ss. cs = ps @ q @ ss)"
    by (auto simp: Cons_eq_append_conv)
  moreover have "(\<exists>ss. c # cs = q @ ss) \<longleftrightarrow> take (length q) (c # cs) = q"
  proof
    assume "\<exists>ss. c # cs = q @ ss"
    then obtain ss where "c # cs = q @ ss" ..
    then show "take (length q) (c # cs) = q" by simp
  next
    assume "take (length q) (c # cs) = q"
    then have "c # cs = q @ drop (length q) (c # cs)"
      by (metis append_take_drop_id)
    then show "\<exists>ss. c # cs = q @ ss" ..
  qed
  ultimately show ?case using Cons.IH by (simp only: includes_str.simps)
qed

text \<open>
  The search handler by itself: it rejects a missing or empty query and otherwise
  returns the stored messages whose title or body contains the query
  case-insensitively.
\<close>

lemma search_messages_filters:
  "search_messages req s =
     (case req_query req of
        Absent \<Rightarrow> (Response 400 (Json_error ''Query parameter is required.''), s)
      | Present q \<Rightarrow>
          if q = [] then (Response 400 (Json_error ''Query parameter is required.''), s)
          else (Response 200 (Json_messages
                  (filter (\<lambda>m. contains_ci (title m) q \<or> contains_ci (body m) q) (storage_values s))), s))"
  by (simp add: search_messages_def sendError_def toLowerCase_def contains_ci_def includes_str_iff Let_def
           split: field.splits)

text \<open>
  The route \<open>/messages/:id\<close> is registered before \<open>/messages/search\<close>, so a request for
  \<open>GET /messages/search\<close> is taken by the former with the id \<open>search\<close>, whatever the
  store returns.
\<close>

lemma search_route_is_get_message:
  "app api e \<lparr>req_method = GET, req_path = [''messages'', ''search''], req_query = q, req_body = b\<rparr> s
     = get_message api ''search'' s"
  by (simp add: app_def routes_def params_id_def lower_messages)

text \<open>
  C5: a search does not return the messages that contain the query. With a stored
  message whose body is \<open>cat sat\<close>, the request \<open>GET /messages/search?query=at\<close> is
  answered as the reading of a message \<open>search\<close>: with the 404 of a message not found by
  a store that returns \<open>null\<close>, and with status 200 and \<open>{None: null}\<close> by a store that
  returns Options. The search handler, had the request reached it, would return that
  message.
\<close>

theorem search_route_shadowed:
  "app Returns_null sample_env (search_request ''at'') two_messages
     = (Response 404 (Json_error ''Message with id=search not found.''), two_messages) \<and>
   app Returns_option sample_env (search_request ''at'') two_messages
     = (Response 200 (Json_option None), two_messages) \<and>
   search_messages (search_request ''at'') two_messages
     = (Response 200 (Json_messages [cat_message]), two_messages)"
  by (simp add: search_request_def search_route_is_get_message get_message_def storage_get_def
        two_messages_def not_found_def sendError_def search_messages_def storage_values_def
        from_store_def js_not_def json_of_def
        Let_def toLowerCase_def lower_char_def cat_message_def dog_message_def)

section \<open>Timestamps\<close>





subsection \<open>In the store\<close>

text \<open>
  The PUT handler never changes the store: it answers 404, or 400 when the call of
  \<open>update\<close> on the snapshot throws. So no stored record has an \<open>updatedAt\<close>, and the
  records of the store are those that \<open>create\<close> made.
\<close>

lemma put_message_answers:
  "put_message api e i req s =
     (if api = Returns_option \<and> storage_get s i \<noteq> None
      then (Response 400 (Json_error ''message.update is not a function''), s)
      else (not_found i, s))"
  by (cases api)
     (auto simp: put_message_def from_store_def js_not_def dot_Some_def snapshot_update_def
        sendError_def Let_def split: option.splits)

lemma put_message_keeps: "snd (put_message api e i req s) = s"
  by (simp add: put_message_answers)

lemma get_message_keeps: "snd (get_message api i s) = s"
  by (simp add: get_message_def Let_def)

lemma search_messages_keeps: "snd (search_messages req s) = s"
  by (simp add: search_messages_def Let_def split: field.splits)

lemma set_update_subset: "set (AList.update k v al) \<subseteq> insert (k, v) (set al)"
  by (induction al) auto

lemma set_delete_subset: "set (AList.delete k al) \<subseteq> set al"
  by (induction al) auto

lemma post_messages_fresh:
  assumes "\<forall>(k, m) \<in> set s. updatedAt m = None"
  shows "\<forall>(k, m) \<in> set (snd (post_messages e req s)). updatedAt m = None"
proof (cases "create (uuidv4 e) (ic_time e) (req_body req)")
  case (Inl err)
  then show ?thesis using assms by (cases err) (simp add: post_messages_def)
next
  case (Inr m)
  then have "updatedAt m = None" by (auto simp: create_cases split: field.splits if_splits)
  then show ?thesis
    using assms Inr set_update_subset [of "id_msg m" m s]
    by (auto simp: post_messages_def storage_insert_def)
qed

lemma dispatch_keeps:
  assumes "P s"
    and "\<And>m pat h ps. (m, pat, h) \<in> set rs \<Longrightarrow> P (snd (h e req ps s))"
  shows "P (snd (dispatch rs e req ps s))"
  using assms(2)
proof (induction rs)
  case Nil
  then show ?case using assms(1) by simp
next
  case (Cons r rs)
  obtain m pat h where r: "r = (m, pat, h)" by (cases r)
  have rest: "P (snd (dispatch rs e req ps s))"
  proof (rule Cons.IH)
    fix m' pat' h' ps'
    assume "(m', pat', h') \<in> set rs"
    then show "P (snd (h' e req ps' s))"
      using Cons.prems [of m' pat' h' ps'] by simp
  qed
  have here: "P (snd (h e req ps' s))" for ps'
    using Cons.prems [of m pat h ps'] r by simp
  show ?case using rest here by (simp add: r split: option.splits)
qed

lemma app_fresh:
  assumes "\<forall>(k, m) \<in> set s. updatedAt m = None"
  shows "\<forall>(k, m) \<in> set (snd (app api e req s)). updatedAt m = None"
  unfolding app_def
proof (rule dispatch_keeps [where P = "\<lambda>s. \<forall>(k, m) \<in> set s. updatedAt m = None", OF assms])
  fix m pat h ps
  assume "(m, pat, h) \<in> set (routes api)"
  then show "\<forall>(k, m) \<in> set (snd (h e req ps s)). updatedAt m = None"
    using assms post_messages_fresh [OF assms, of e req]
      set_delete_subset [of "params_id ps" s]
    by (auto simp: routes_def put_message_keeps get_message_keeps search_messages_keeps
          delete_message_removes storage_remove_def get_messages_def)
qed

lemma stored_never_updated:
  assumes "\<forall>(k, m) \<in> set s. updatedAt m = None"
  shows "\<forall>(k, m) \<in> set (run api evs s). updatedAt m = None"
  using assms
proof (induction evs arbitrary: s)
  case Nil
  then show ?case by simp
next
  case (Cons ev evs)
  obtain e req where ev: "ev = (e, req)" by (cases ev)
  show ?case using Cons.IH [OF app_fresh [OF Cons.prems, of api e req]] by (simp add: ev)
qed

end
